theory Spec2Isabelle
  imports Main "HOL-Library.Sublist" "HOL-Library.AList"
begin

section \<open>JavaScript values and exceptions\<close>

text \<open>
  The tools receive their arguments as \<^verbatim>\<open>input: any\<close>, the JSON object of a tool
  request. A property that is absent reads as \<^verbatim>\<open>undefined\<close>. Of a number the tools
  use two things only, and these are what \<open>JNum\<close> keeps: whether it is falsy (zero or
  NaN), and the text a template literal prints for it.
\<close>

datatype jsval =
    JUndefined
  | JNull
  | JBool bool
  | JNum bool string
  | JStr string
  | JArr "jsval list"

type_synonym jsobj = "(string \<times> jsval) list"

definition field :: "jsobj \<Rightarrow> string \<Rightarrow> jsval" where
  "field obj k = (case map_of obj k of None \<Rightarrow> JUndefined | Some v \<Rightarrow> v)"

text \<open>
  A thrown value: the tools only ever read \<^verbatim>\<open>e.message\<close>, or convert the whole error
  to a string, which prints its name, a colon and the message.
\<close>

datatype exn = TypeError (message: string) | SystemError (message: string)


definition nl :: string where
  "nl = [CHR 0x0A]"

subsection \<open>Numbers in template literals\<close>

definition digit :: "nat \<Rightarrow> char" where
  "digit d = ''0123456789'' ! d"

fun show_nat :: "nat \<Rightarrow> string" where
  "show_nat n = (if n < 10 then [digit n] else show_nat (n div 10) @ [digit (n mod 10)])"

declare show_nat.simps [simp del]

definition show_int :: "int \<Rightarrow> string" where
  "show_int i = (if i < 0 then ''-'' @ show_nat (nat (- i)) else show_nat (nat i))"


text \<open>\<^verbatim>\<open>Array.prototype.join\<close>, also used by \<^verbatim>\<open>String(array)\<close> with a comma.\<close>

fun join :: "string \<Rightarrow> string list \<Rightarrow> string" where
  "join sep [] = []"
| "join sep [x] = x"
| "join sep (x # y # ys) = x @ sep @ join sep (y # ys)"

fun js_to_string :: "jsval \<Rightarrow> string" where
  "js_to_string JUndefined = ''undefined''"
| "js_to_string JNull = ''null''"
| "js_to_string (JBool b) = (if b then ''true'' else ''false'')"
| "js_to_string (JNum falsy printed) = printed"
| "js_to_string (JStr s) = s"
| "js_to_string (JArr xs) =
     join '','' (map (\<lambda>x. case x of JUndefined \<Rightarrow> [] | JNull \<Rightarrow> [] | _ \<Rightarrow> js_to_string x) xs)"

section \<open>The environment: paths, the file system, child processes\<close>

text \<open>
  \<^verbatim>\<open>String.prototype.split\<close> with a one-character separator: the pieces between the
  separators, empty pieces included, so the empty string gives one empty piece.
\<close>

fun split_on :: "char \<Rightarrow> string \<Rightarrow> string list" where
  "split_on c [] = [[]]"
| "split_on c (x # xs) =
     (if x = c then [] # split_on c xs
      else (case split_on c xs of [] \<Rightarrow> [[x]] | w # ws \<Rightarrow> (x # w) # ws))"

subsection \<open>The file system\<close>

text \<open>
  The errors of system calls. Their messages are cut after the description: the
  runtime goes on with the system call and the path.
\<close>

datatype errno = ENOENT | EACCES | EISDIR | ENOTDIR | ENXIO | ENOSPC | EFBIG | EDQUOT | EIO

fun errno_message :: "errno \<Rightarrow> string" where
  "errno_message ENOENT = ''ENOENT: no such file or directory''"
| "errno_message EACCES = ''EACCES: permission denied''"
| "errno_message EISDIR = ''EISDIR: illegal operation on a directory''"
| "errno_message ENOTDIR = ''ENOTDIR: not a directory''"
| "errno_message ENXIO = ''ENXIO: no such device or address''"
| "errno_message ENOSPC = ''ENOSPC: no space left on device''"
| "errno_message EFBIG = ''EFBIG: file too large''"
| "errno_message EDQUOT = ''EDQUOT: disk quota exceeded''"
| "errno_message EIO = ''EIO: i/o error''"

definition sys_error :: "errno \<Rightarrow> exn" where
  "sys_error c = SystemError (errno_message c)"

text \<open>
  The file system is a tree under the root directory, symbolic links followed. A
  regular file has its permissions and its text, as a read in UTF-8 gives it. A
  special file (a FIFO, a device, a socket) is given by what opening it does, for
  reading and for writing: it hangs for ever (a FIFO without a peer), fails, or goes
  through; \<^verbatim>\<open>/dev/null\<close> reads as the empty text and takes every write without
  keeping it.
\<close>

datatype perm = ReadWrite | ReadOnly | WriteOnly | NoAccess

fun can_read :: "perm \<Rightarrow> bool" where
  "can_read ReadWrite = True"
| "can_read ReadOnly = True"
| "can_read p = False"

fun can_write :: "perm \<Rightarrow> bool" where
  "can_write ReadWrite = True"
| "can_write WriteOnly = True"
| "can_write p = False"

datatype 'a behaviour = Hangs | Fails errno | Gives 'a

datatype fsnode =
    File perm string
  | Dir "(string \<times> fsnode) list"
  | NoAccessDir
  | Special "string behaviour" "unit behaviour"

text \<open>The node under a list of names, from the root.\<close>

primrec lookup :: "string list \<Rightarrow> fsnode \<Rightarrow> exn + fsnode" where
  "lookup [] n = Inr n"
| "lookup (c # cs) n =
     (case n of
        Dir es \<Rightarrow>
          (case map_of es c of
             None \<Rightarrow> Inl (sys_error ENOENT)
           | Some ch \<Rightarrow> lookup cs ch)
      | NoAccessDir \<Rightarrow> Inl (sys_error EACCES)
      | _ \<Rightarrow> Inl (sys_error ENOTDIR))"

text \<open>
  The system resolves a path component by component, on the tree as it is: an empty
  component (two slashes, a slash at the end), \<^verbatim>\<open>.\<close> and \<^verbatim>\<open>..\<close> ask for what comes
  before them to be a directory, and \<^verbatim>\<open>..\<close> then steps back to its parent. The
  result is the list of names from the root; the last name need not exist yet.
\<close>

fun canonical :: "fsnode \<Rightarrow> string list \<Rightarrow> string list \<Rightarrow> exn + string list" where
  "canonical root acc [] = Inr acc"
| "canonical root acc (c # cs) =
     (if c = [] \<or> c = ''.'' \<or> c = ''..''
      then (case lookup acc root of
              Inl e \<Rightarrow> Inl e
            | Inr (Dir es) \<Rightarrow> canonical root (if c = ''..'' then butlast acc else acc) cs
            | Inr NoAccessDir \<Rightarrow> Inl (sys_error EACCES)
            | Inr _ \<Rightarrow> Inl (sys_error ENOTDIR))
      else canonical root (acc @ [c]) cs)"

text \<open>
  Every \<^verbatim>\<open>fs\<close> call first rejects a path with a NUL character, with a TypeError, and
  the system rejects the empty path. The paths the tools pass on are absolute, since
  the working directory is.
\<close>

definition resolve :: "fsnode \<Rightarrow> string \<Rightarrow> exn + string list" where
  "resolve root p =
     (if CHR 0x00 \<in> set p
      then Inl (TypeError ''The argument path must be a string without null bytes'')
      else if p = [] then Inl (sys_error ENOENT)
      else canonical root [] (split_on (CHR ''/'') p))"

text \<open>\<^verbatim>\<open>fs.statSync\<close>: the node a path names.\<close>

definition fs_stat :: "fsnode \<Rightarrow> string \<Rightarrow> exn + fsnode" where
  "fs_stat root p = (case resolve root p of Inl e \<Rightarrow> Inl e | Inr cs \<Rightarrow> lookup cs root)"

text \<open>
  Opening the node under a list of names for writing, truncating it, and writing a
  text. The call hangs (\<open>None\<close>), raises, or returns, and leaves a tree behind in
  both cases: when the device gives up in the middle (\<open>fault\<close> holds the error and the
  part of the text that was stored), the file is already created or truncated.
\<close>

datatype write_result = WriteRaises exn fsnode | Written fsnode

primrec put ::
  "string list \<Rightarrow> string \<Rightarrow> (errno \<times> string) option \<Rightarrow> fsnode \<Rightarrow> write_result option" where
  "put [] stored fault n =
     (case n of
        File p old \<Rightarrow>
          (if can_write p
           then (case fault of
                   None \<Rightarrow> Some (Written (File p stored))
                 | Some (c, part) \<Rightarrow> Some (WriteRaises (sys_error c) (File p part)))
           else Some (WriteRaises (sys_error EACCES) n))
      | Dir es \<Rightarrow> Some (WriteRaises (sys_error EISDIR) n)
      | NoAccessDir \<Rightarrow> Some (WriteRaises (sys_error EISDIR) n)
      | Special r w \<Rightarrow>
          (case w of
             Hangs \<Rightarrow> None
           | Fails c \<Rightarrow> Some (WriteRaises (sys_error c) n)
           | Gives u \<Rightarrow> Some (Written n)))"
| "put (c # cs) stored fault n =
     (case n of
        Dir es \<Rightarrow>
          (case map_of es c of
             None \<Rightarrow>
               (if cs = []
                then (case fault of
                        None \<Rightarrow> Some (Written (Dir (es @ [(c, File ReadWrite stored)])))
                      | Some (e, part) \<Rightarrow>
                          Some (WriteRaises (sys_error e) (Dir (es @ [(c, File ReadWrite part)]))))
                else Some (WriteRaises (sys_error ENOENT) n))
           | Some ch \<Rightarrow>
               (case put cs stored fault ch of
                  None \<Rightarrow> None
                | Some (WriteRaises e ch') \<Rightarrow> Some (WriteRaises e (Dir (AList.update c ch' es)))
                | Some (Written ch') \<Rightarrow> Some (Written (Dir (AList.update c ch' es)))))
      | NoAccessDir \<Rightarrow> Some (WriteRaises (sys_error EACCES) n)
      | _ \<Rightarrow> Some (WriteRaises (sys_error ENOTDIR) n))"

subsection \<open>Paths\<close>

text \<open>How an error message of the runtime names the value it received.\<close>

fun received :: "jsval \<Rightarrow> string" where
  "received JUndefined = ''undefined''"
| "received JNull = ''null''"
| "received (JBool b) = ''type boolean ('' @ js_to_string (JBool b) @ '')''"
| "received (JNum falsy printed) = ''type number ('' @ printed @ '')''"
| "received (JStr s) = ''type string''"
| "received (JArr xs) = ''an instance of Array''"

text \<open>
  \<^verbatim>\<open>path.isAbsolute\<close> raises a TypeError unless its argument is a string; a POSIX path
  is absolute when it starts with a slash. (The runtime's message has the argument
  name in double quotes.)
\<close>

fun path_isAbsolute :: "jsval \<Rightarrow> exn + bool" where
  "path_isAbsolute (JStr s) = Inr (case s of [] \<Rightarrow> False | c # cs \<Rightarrow> c = CHR ''/'')"
| "path_isAbsolute v =
     Inl (TypeError (''The path argument must be of type string. Received '' @ received v))"

text \<open>
  What the tools do not fix themselves: the working directory of the process and
  \<^verbatim>\<open>path.join\<close>; what \<^verbatim>\<open>spawn("bash", ["-c", command], { cwd })\<close> does with a command
  on a file system (the call either raises at once, or starts a process that emits
  events, in their order, and leaves a file system behind); the text that is in a
  file, and comes back from it, when a string is written in UTF-8 (the string itself,
  unless it holds a lone surrogate, which is stored as the replacement character);
  and whether the device takes the whole of a text that is written to a path, or
  fails with an error after it stored a part of it.
\<close>

datatype proc_event =
    Stdout string
  | Stderr string
  | Close "int option"
  | ProcError exn

datatype spawned =
    SpawnThrows exn
  | Spawned "proc_event list" fsnode

record env =
  cwd :: string
  path_join :: "string \<Rightarrow> string \<Rightarrow> string"
  spawn :: "jsval \<Rightarrow> fsnode \<Rightarrow> spawned"
  utf8_text :: "string \<Rightarrow> string"
  write_fault :: "fsnode \<Rightarrow> string \<Rightarrow> string \<Rightarrow> (errno \<times> string) option"

text \<open>\<^verbatim>\<open>const resolvePath = (p) => (path.isAbsolute(p) ? p : path.join(cwd, p))\<close>\<close>

definition resolvePath :: "env \<Rightarrow> jsval \<Rightarrow> exn + string" where
  "resolvePath E p =
     (case path_isAbsolute p of
        Inl e \<Rightarrow> Inl e
      | Inr absolute \<Rightarrow>
          (if absolute then Inr (js_to_string p) else Inr (path_join E (cwd E) (js_to_string p))))"

subsection \<open>The \<^verbatim>\<open>fs\<close> calls\<close>

text \<open>
  \<^verbatim>\<open>fs.readFileSync(p, "utf-8")\<close> returns the text, raises, or hangs (\<open>None\<close>) when
  opening the file does.
\<close>

definition fs_readFileSync :: "fsnode \<Rightarrow> string \<Rightarrow> (exn + string) option" where
  "fs_readFileSync root p =
     (case fs_stat root p of
        Inl e \<Rightarrow> Some (Inl e)
      | Inr (File pm stored) \<Rightarrow>
          (if can_read pm then Some (Inr stored) else Some (Inl (sys_error EACCES)))
      | Inr (Dir es) \<Rightarrow> Some (Inl (sys_error EISDIR))
      | Inr NoAccessDir \<Rightarrow> Some (Inl (sys_error EACCES))
      | Inr (Special r w) \<Rightarrow>
          (case r of
             Hangs \<Rightarrow> None
           | Fails c \<Rightarrow> Some (Inl (sys_error c))
           | Gives stored \<Rightarrow> Some (Inr stored)))"

text \<open>
  \<^verbatim>\<open>fs.writeFileSync\<close> checks its data before it opens the file: data that is neither a
  string nor a buffer raises a TypeError and nothing is touched.
\<close>

definition fs_writeFileSync :: "env \<Rightarrow> fsnode \<Rightarrow> string \<Rightarrow> jsval \<Rightarrow> write_result option" where
  "fs_writeFileSync E root p data =
     (case data of
        JStr body \<Rightarrow>
          (case resolve root p of
             Inl e \<Rightarrow> Some (WriteRaises e root)
           | Inr cs \<Rightarrow> put cs (utf8_text E body) (write_fault E root p body) root)
      | _ \<Rightarrow> Some (WriteRaises
                      (TypeError (''The data argument must be of type string or an instance of ''
                         @ ''Buffer, TypedArray, or DataView. Received '' @ received data))
                      root))"

text \<open>\<^verbatim>\<open>fs.readdirSync(p, { withFileTypes: true })\<close>: the entries with their kinds.\<close>

definition fs_readdirSync :: "fsnode \<Rightarrow> string \<Rightarrow> exn + (string \<times> fsnode) list" where
  "fs_readdirSync root p =
     (case fs_stat root p of
        Inl e \<Rightarrow> Inl e
      | Inr (Dir es) \<Rightarrow> Inr es
      | Inr NoAccessDir \<Rightarrow> Inl (sys_error EACCES)
      | Inr _ \<Rightarrow> Inl (sys_error ENOTDIR))"

fun isDirectory :: "fsnode \<Rightarrow> bool" where
  "isDirectory (Dir es) = True"
| "isDirectory NoAccessDir = True"
| "isDirectory _ = False"


section \<open>The tool executor\<close>

subsection \<open>The bash tool's event handlers\<close>

text \<open>
  The promise of the bash tool is resolved by the first \<^verbatim>\<open>close\<close> or \<^verbatim>\<open>error\<close> event;
  the data events before it append to \<^verbatim>\<open>stdout\<close> and \<^verbatim>\<open>stderr\<close>. A process that emits
  neither leaves the promise pending for ever: that is \<open>None\<close>. The call of
  \<^verbatim>\<open>spawn\<close> sits in the executor of the promise, outside any \<^verbatim>\<open>try\<close>: if it raises,
  the promise is rejected and the caller of \<^verbatim>\<open>executeTool\<close> gets the exception.
\<close>

fun show_code :: "int option \<Rightarrow> string" where
  "show_code None = ''null''"
| "show_code (Some n) = show_int n"

fun bash_events :: "string \<Rightarrow> string \<Rightarrow> proc_event list \<Rightarrow> string option" where
  "bash_events out err [] = None"
| "bash_events out err (Stdout d # evs) = bash_events (out @ d) err evs"
| "bash_events out err (Stderr d # evs) = bash_events out (err @ d) evs"
| "bash_events out err (Close code # evs) =
     Some (''Exit code: '' @ show_code code @ nl @ out
           @ (if err \<noteq> [] then nl @ ''Stderr: '' @ err else []))"
| "bash_events out err (ProcError e # evs) = Some (''Error: '' @ message e)"

subsection \<open>The modular variant: \<^verbatim>\<open>executeTool\<close> of \<^verbatim>\<open>src/tools.ts\<close>\<close>

text \<open>
  The result is \<open>None\<close> when the call never returns (the promise never settles, or a
  synchronous \<^verbatim>\<open>fs\<close> call hangs), \<open>Some (Inl e)\<close> when the call raises \<open>e\<close> to its
  caller, and \<open>Some (Inr (text, root'))\<close> when it returns \<open>text\<close> and leaves the file
  system \<open>root'\<close>.
\<close>

type_synonym tool_result = "(exn + string \<times> fsnode) option"

definition read_file :: "env \<Rightarrow> jsobj \<Rightarrow> fsnode \<Rightarrow> string option" where
  "read_file E input root =
     (case resolvePath E (field input ''path'') of
        Inl e \<Rightarrow> Some (''Error: '' @ message e)
      | Inr p \<Rightarrow>
          (case fs_readFileSync root p of
             None \<Rightarrow> None
           | Some (Inl e) \<Rightarrow> Some (''Error: '' @ message e)
           | Some (Inr stored) \<Rightarrow> Some stored))"

definition write_file :: "env \<Rightarrow> jsobj \<Rightarrow> fsnode \<Rightarrow> (string \<times> fsnode) option" where
  "write_file E input root =
     (if field input ''content'' = JUndefined \<or> field input ''content'' = JNull
      then Some (''Error: content parameter is required but was not provided'', root)
      else (case resolvePath E (field input ''path'') of
              Inl e \<Rightarrow> Some (''Error: '' @ message e, root)
            | Inr p \<Rightarrow>
                (case fs_writeFileSync E root p (field input ''content'') of
                   None \<Rightarrow> None
                 | Some (WriteRaises e root') \<Rightarrow> Some (''Error: '' @ message e, root')
                 | Some (Written root') \<Rightarrow>
                     Some (''Written to '' @ js_to_string (field input ''path''), root'))))"

definition list_dir :: "env \<Rightarrow> jsobj \<Rightarrow> fsnode \<Rightarrow> string" where
  "list_dir E input root =
     (case resolvePath E (field input ''path'') of
        Inl e \<Rightarrow> ''Error: '' @ message e
      | Inr p \<Rightarrow>
          (case fs_readdirSync root p of
             Inl e \<Rightarrow> ''Error: '' @ message e
           | Inr entries \<Rightarrow>
               join nl (map (\<lambda>(name, node). if isDirectory node then name @ ''/'' else name)
                          entries)))"

definition bash :: "env \<Rightarrow> jsobj \<Rightarrow> fsnode \<Rightarrow> tool_result" where
  "bash E input root =
     (case spawn E (field input ''command'') root of
        SpawnThrows e \<Rightarrow> Some (Inl e)
      | Spawned evs root' \<Rightarrow>
          (case bash_events [] [] evs of
             None \<Rightarrow> None
           | Some text \<Rightarrow> Some (Inr (text, root'))))"

definition executeTool :: "env \<Rightarrow> string \<Rightarrow> jsobj \<Rightarrow> fsnode \<Rightarrow> tool_result" where
  "executeTool E name input root =
     (if name = ''read_file''
      then map_option (\<lambda>text. Inr (text, root)) (read_file E input root)
      else if name = ''write_file'' then map_option Inr (write_file E input root)
      else if name = ''list_dir'' then Some (Inr (list_dir E input root, root))
      else if name = ''bash'' then bash E input root
      else Some (Inr (''Unknown tool: '' @ name, root)))"

subsection \<open>The single-file variant: \<^verbatim>\<open>executeTool\<close> of \<^verbatim>\<open>agent.ts\<close>\<close>

text \<open>
  The single-file agent has the same four tools; its \<^verbatim>\<open>write_file\<close> passes
  \<^verbatim>\<open>input.content\<close> to \<^verbatim>\<open>fs.writeFileSync\<close> without looking at it first.
\<close>

definition write_file_single :: "env \<Rightarrow> jsobj \<Rightarrow> fsnode \<Rightarrow> (string \<times> fsnode) option" where
  "write_file_single E input root =
     (case resolvePath E (field input ''path'') of
        Inl e \<Rightarrow> Some (''Error: '' @ message e, root)
      | Inr p \<Rightarrow>
          (case fs_writeFileSync E root p (field input ''content'') of
             None \<Rightarrow> None
           | Some (WriteRaises e root') \<Rightarrow> Some (''Error: '' @ message e, root')
           | Some (Written root') \<Rightarrow>
               Some (''Written to '' @ js_to_string (field input ''path''), root')))"

definition executeTool_single :: "env \<Rightarrow> string \<Rightarrow> jsobj \<Rightarrow> fsnode \<Rightarrow> tool_result" where
  "executeTool_single E name input root =
     (if name = ''read_file''
      then map_option (\<lambda>text. Inr (text, root)) (read_file E input root)
      else if name = ''write_file'' then map_option Inr (write_file_single E input root)
      else if name = ''list_dir'' then Some (Inr (list_dir E input root, root))
      else if name = ''bash'' then bash E input root
      else Some (Inr (''Unknown tool: '' @ name, root)))"


section \<open>The turn loop of the modular variant\<close>

subsection \<open>The transcript\<close>

datatype role = User | Assistant

text \<open>
  A content block: text, a tool-invocation request (identifier, name, input) or a tool
  result (the identifier of its request, the text).
\<close>

datatype content_block =
    TextBlock string
  | ToolUseBlock string string jsobj
  | ToolResultBlock string string

datatype msg_content = Plain string | Blocks "content_block list"

datatype message = Message (role: role) (content: msg_content)

text \<open>
  The model endpoint, \<^verbatim>\<open>client.messages.create\<close>: system instruction and tool list
  are the same in every call, so a call is decided by the transcript it sends. It
  answers with the content blocks of a response, raises, or never answers (\<open>None\<close>).
\<close>

type_synonym endpoint = "message list \<Rightarrow> (exn + content_block list) option"

subsection \<open>Token accounting: \<^verbatim>\<open>src/types.ts\<close> and \<^verbatim>\<open>src/utils.ts\<close>\<close>

record TokenUsage =
  inputTokens :: nat
  outputTokens :: nat
  totalTokens :: nat

record SessionStats =
  totalTokens :: nat
  requestCount :: nat
  maxContextTokens :: nat
  currentConversationTokens :: nat

text \<open>
  The tokenizer package, \<^verbatim>\<open>JSON.stringify\<close> on a tool input, and the JSON text of the
  tool list are taken as given.
\<close>

record accounting =
  countTokens :: "string \<Rightarrow> nat"
  stringify :: "jsobj \<Rightarrow> string"
  tools_json :: string

fun block_input_text :: "content_block \<Rightarrow> string" where
  "block_input_text (TextBlock t) = t"
| "block_input_text (ToolResultBlock i text) = text"
| "block_input_text (ToolUseBlock i n input) = []"

fun message_input_text :: "msg_content \<Rightarrow> string" where
  "message_input_text (Plain text) = text"
| "message_input_text (Blocks bs) = foldl (\<lambda>acc b. acc @ block_input_text b) [] bs"

fun block_output_text :: "accounting \<Rightarrow> content_block \<Rightarrow> string" where
  "block_output_text A (TextBlock t) = t"
| "block_output_text A (ToolUseBlock i n input) = stringify A input"
| "block_output_text A (ToolResultBlock i text) = []"

definition calculateTokenUsage ::
  "accounting \<Rightarrow> message list \<Rightarrow> string \<Rightarrow> content_block list \<Rightarrow> TokenUsage" where
  "calculateTokenUsage A msgs systemPrompt response =
     (let inputText = foldl (\<lambda>acc m. acc @ message_input_text (content m)) systemPrompt msgs
                      @ tools_json A;
          outputText = foldl (\<lambda>acc b. acc @ block_output_text A b) [] response;
          inputTokens = countTokens A inputText;
          outputTokens = countTokens A outputText
      in \<lparr>inputTokens = inputTokens, outputTokens = outputTokens,
           totalTokens = inputTokens + outputTokens\<rparr>)"

definition updateContextUsage :: "TokenUsage \<Rightarrow> SessionStats \<Rightarrow> SessionStats" where
  "updateContextUsage usage stats =
     stats\<lparr>totalTokens := SessionStats.totalTokens stats + TokenUsage.totalTokens usage,
           currentConversationTokens := currentConversationTokens stats + inputTokens usage,
           requestCount := requestCount stats + 1\<rparr>"

subsection \<open>\<^verbatim>\<open>runAgent\<close> of \<^verbatim>\<open>src/agent.ts\<close>\<close>

record agent_state =
  messages :: "message list"
  sessionStats :: SessionStats
  loopCount :: nat
  fs :: fsnode

definition systemPrompt :: "env \<Rightarrow> string" where
  "systemPrompt E =
     ''You are a coding assistant. Working directory: '' @ cwd E @ nl
     @ ''Use tools to help the user. Be concise.''"

text \<open>
  What \<^verbatim>\<open>runAgent\<close> prints on the terminal is left out: it changes neither the
  transcript nor the statistics nor the files.
\<close>

text \<open>
  The loop over the blocks of one response, with the variables \<^verbatim>\<open>hasToolUse\<close> and
  \<^verbatim>\<open>toolResults\<close> it updates. A tool call that raises ends the loop with the file
  system as it was before that call; one that never returns never ends the loop.
\<close>

fun process_blocks ::
  "env \<Rightarrow> content_block list \<Rightarrow> bool \<Rightarrow> content_block list \<Rightarrow> fsnode
   \<Rightarrow> (exn \<times> fsnode + bool \<times> content_block list \<times> fsnode) option" where
  "process_blocks E [] hasToolUse toolResults root = Some (Inr (hasToolUse, toolResults, root))"
| "process_blocks E (TextBlock t # bs) hasToolUse toolResults root =
     process_blocks E bs hasToolUse toolResults root"
| "process_blocks E (ToolUseBlock i name input # bs) hasToolUse toolResults root =
     (case executeTool E name input root of
        None \<Rightarrow> None
      | Some (Inl e) \<Rightarrow> Some (Inl (e, root))
      | Some (Inr (result, root')) \<Rightarrow>
          process_blocks E bs True (toolResults @ [ToolResultBlock i result]) root')"
| "process_blocks E (ToolResultBlock i text # bs) hasToolUse toolResults root =
     process_blocks E bs hasToolUse toolResults root"

datatype step = Continue agent_state | Break agent_state | Throw exn agent_state

text \<open>One pass through the body of \<^verbatim>\<open>while (true)\<close>.\<close>

definition iteration :: "env \<Rightarrow> accounting \<Rightarrow> endpoint \<Rightarrow> agent_state \<Rightarrow> step option" where
  "iteration E A model st =
     (let st1 = st\<lparr>loopCount := loopCount st + 1,
                   sessionStats := (sessionStats st)\<lparr>requestCount :=
                                      requestCount (sessionStats st) + 1\<rparr>\<rparr>
      in case model (messages st1) of
           None \<Rightarrow> None
         | Some (Inl e) \<Rightarrow> Some (Throw e st1)
         | Some (Inr response) \<Rightarrow>
             (let tokenUsage = calculateTokenUsage A (messages st1) (systemPrompt E) response;
                  st2 = st1\<lparr>sessionStats := updateContextUsage tokenUsage (sessionStats st1)\<rparr>
              in case process_blocks E response False [] (fs st2) of
                   None \<Rightarrow> None
                 | Some (Inl (e, root')) \<Rightarrow> Some (Throw e (st2\<lparr>fs := root'\<rparr>))
                 | Some (Inr (hasToolUse, toolResults, root')) \<Rightarrow>
                     (let st3 = st2\<lparr>fs := root',
                                    messages := messages st2
                                                @ [Message Assistant (Blocks response)]\<rparr>
                      in if hasToolUse
                         then Some (Continue (st3\<lparr>messages := messages st3
                                                @ [Message User (Blocks toolResults)]\<rparr>))
                         else Some (Break st3))))"

datatype run_result = Returned agent_state | Raised exn agent_state

partial_function (option) agent_loop ::
  "env \<Rightarrow> accounting \<Rightarrow> endpoint \<Rightarrow> agent_state \<Rightarrow> run_result option" where
  "agent_loop E A model st =
     (case iteration E A model st of
        None \<Rightarrow> None
      | Some (Continue st') \<Rightarrow> agent_loop E A model st'
      | Some (Break st') \<Rightarrow> Some (Returned st')
      | Some (Throw e st') \<Rightarrow> Some (Raised e st'))"

definition runAgent ::
  "env \<Rightarrow> accounting \<Rightarrow> endpoint \<Rightarrow> string \<Rightarrow> SessionStats \<Rightarrow> fsnode
   \<Rightarrow> run_result option" where
  "runAgent E A model userMessage stats root =
     agent_loop E A model
       \<lparr>messages = [Message User (Plain userMessage)], sessionStats = stats,
        loopCount = 0, fs = root\<rparr>"


section \<open>The search tool of the enhanced variant\<close>













section \<open>Vocabulary of the properties\<close>

text \<open>The tool-invocation requests of a response, in the order of the response.\<close>

fun requests_of :: "content_block list \<Rightarrow> (string \<times> string \<times> jsobj) list" where
  "requests_of [] = []"
| "requests_of (ToolUseBlock i name input # bs) = (i, name, input) # requests_of bs"
| "requests_of (b # bs) = requests_of bs"

text \<open>
  Running requests one after the other, each on the file system the one before it
  left, and collecting one result block per request under the request's identifier.
\<close>

fun execute_in_order ::
  "env \<Rightarrow> (string \<times> string \<times> jsobj) list \<Rightarrow> fsnode
   \<Rightarrow> (exn \<times> fsnode + content_block list \<times> fsnode) option" where
  "execute_in_order E [] root = Some (Inr ([], root))"
| "execute_in_order E ((i, name, input) # rs) root =
     (case executeTool E name input root of
        None \<Rightarrow> None
      | Some (Inl e) \<Rightarrow> Some (Inl (e, root))
      | Some (Inr (text, root')) \<Rightarrow>
          (case execute_in_order E rs root' of
             None \<Rightarrow> None
           | Some (Inl x) \<Rightarrow> Some (Inl x)
           | Some (Inr (results, root'')) \<Rightarrow>
               Some (Inr (ToolResultBlock i text # results, root''))))"

text \<open>A block answers a request when it is a tool result with the request's identifier.\<close>

fun answers :: "string \<times> string \<times> jsobj \<Rightarrow> content_block \<Rightarrow> bool" where
  "answers (i, name, input) (ToolResultBlock j text) = (j = i)"
| "answers (i, name, input) b = False"

text \<open>What a process has written when its events are \<open>evs\<close>, and whether an event settles the promise.\<close>

fun settles :: "proc_event \<Rightarrow> bool" where
  "settles (Close code) = True"
| "settles (ProcError e) = True"
| "settles ev = False"

definition stdout_of :: "proc_event list \<Rightarrow> string" where
  "stdout_of evs = concat (map (\<lambda>ev. case ev of Stdout d \<Rightarrow> d | _ \<Rightarrow> []) evs)"

definition stderr_of :: "proc_event list \<Rightarrow> string" where
  "stderr_of evs = concat (map (\<lambda>ev. case ev of Stderr d \<Rightarrow> d | _ \<Rightarrow> []) evs)"


section \<open>A test fixture\<close>

text \<open>
  A working directory \<^verbatim>\<open>/work\<close> holding a three-line file and an empty directory,
  beside it \<^verbatim>\<open>/dev/null\<close> and a FIFO that nobody writes to; a shell that knows a
  handful of commands (\<^verbatim>\<open>cat\<close> waits for input for ever, a command with a NUL
  character makes \<^verbatim>\<open>spawn\<close> raise); a disk that takes 64 characters a file; a codec in
  which the character 255 stands for a lone surrogate and is stored as a question
  mark; a model that asks for two tools and then stops; and a search engine for
  literal patterns.
\<close>

definition demo_text :: string where
  "demo_text = ''alpha'' @ nl @ ''beta'' @ nl @ ''foobar''"

definition demo_dev :: "string \<times> fsnode" where
  "demo_dev = (''dev'', Dir [(''null'', Special (Gives []) (Gives ()))])"

definition demo_tmp :: "string \<times> fsnode" where
  "demo_tmp = (''tmp'', Dir [(''pipe'', Special Hangs Hangs)])"

definition demo_root :: fsnode where
  "demo_root =
     Dir [(''work'',
           Dir [(''notes.txt'', File ReadWrite demo_text),
                (''sub'', Dir [])]),
          demo_dev, demo_tmp]"

definition demo_spawn :: "jsval \<Rightarrow> fsnode \<Rightarrow> spawned" where
  "demo_spawn command root =
     (if command = JStr ''exit 0'' then Spawned [Close (Some 0)] root
      else if command = JStr ''exit 7'' then Spawned [Close (Some 7)] root
      else if command = JStr ''echo out; echo err >&2; exit 3''
      then Spawned [Stdout (''out'' @ nl), Stderr (''err'' @ nl), Close (Some 3)] root
      else if command = JStr ''cat'' then Spawned [] root
      else if command = JStr ''sleep infinity'' then Spawned [] root
      else if command = JStr [CHR 0x00]
      then SpawnThrows (TypeError ''The argument args[1] must be a string without null bytes'')
      else Spawned [Stderr (''bash: command not found'' @ nl), Close (Some 127)] root)"

definition demo_env :: env where
  "demo_env =
     \<lparr>cwd = ''/work'', path_join = (\<lambda>a b. a @ ''/'' @ b), spawn = demo_spawn,
      utf8_text = map (\<lambda>c. if c = CHR 0xFF then CHR ''?'' else c),
      write_fault = (\<lambda>root p body.
                       if 64 < length body then Some (ENOSPC, take 64 body) else None)\<rparr>"

definition demo_accounting :: accounting where
  "demo_accounting = \<lparr>countTokens = length, stringify = (\<lambda>obj. ''{}''), tools_json = ''[]''\<rparr>"

definition demo_stats :: SessionStats where
  "demo_stats = \<lparr>totalTokens = 0, requestCount = 0, maxContextTokens = 200000,
                 currentConversationTokens = 0\<rparr>"

definition two_requests :: "content_block list" where
  "two_requests =
     [TextBlock ''I will write the file and read it back.'',
      ToolUseBlock ''toolu_1'' ''write_file''
        [(''path'', JStr ''out.txt''), (''content'', JStr ''hello'')],
      ToolUseBlock ''toolu_2'' ''read_file'' [(''path'', JStr ''out.txt'')]]"

definition demo_model :: endpoint where
  "demo_model msgs =
     (if msgs = [Message User (Plain ''hi'')] then Some (Inr [TextBlock ''Hello.''])
      else if length msgs = 1 then Some (Inr two_requests)
      else Some (Inr [TextBlock ''Done.'']))"





definition demo_state :: agent_state where
  "demo_state = \<lparr>messages = [Message User (Plain ''go'')], sessionStats = demo_stats,
                  loopCount = 0, fs = demo_root\<rparr>"

section \<open>Facts about the environment and the helpers\<close>












lemma resolvePath_string:
  "resolvePath E v = Inr p \<Longrightarrow> \<exists>s. v = JStr s"
  by (cases v) (auto simp: resolvePath_def)

lemma resolvePath_not_string:
  "\<forall>s. v \<noteq> JStr s \<Longrightarrow> \<exists>e. resolvePath E v = Inl e"
  by (cases v) (auto simp: resolvePath_def)

text \<open>
  The handlers of the bash tool collect the output up to the event that settles the
  promise; the promise is settled exactly when such an event arrives.
\<close>

lemma bash_events_collect:
  "\<forall>d\<in>set pre. \<not> settles d \<Longrightarrow>
   bash_events out err (pre @ evs) = bash_events (out @ stdout_of pre) (err @ stderr_of pre) evs"
proof (induction pre arbitrary: out err)
  case Nil
  then show ?case by (simp add: stdout_of_def stderr_of_def)
next
  case (Cons ev pre)
  then show ?case by (cases ev) (simp_all add: stdout_of_def stderr_of_def)
qed

lemma bash_events_settles:
  "\<exists>ev\<in>set evs. settles ev \<Longrightarrow> \<exists>text. bash_events out err evs = Some text"
proof (induction evs arbitrary: out err)
  case Nil
  then show ?case by simp
next
  case (Cons ev evs)
  then show ?case by (cases ev) auto
qed

lemma bash_events_pending:
  "\<forall>ev\<in>set evs. \<not> settles ev \<Longrightarrow> bash_events out err evs = None"
proof (induction evs arbitrary: out err)
  case Nil
  then show ?case by simp
next
  case (Cons ev evs)
  then show ?case by (cases ev) auto
qed

text \<open>
  The loop over the blocks of a response runs exactly the requests, first to last.
\<close>

lemma process_blocks_in_order:
  "process_blocks E bs h acc root =
     (case execute_in_order E (requests_of bs) root of
        None \<Rightarrow> None
      | Some (Inl x) \<Rightarrow> Some (Inl x)
      | Some (Inr (rs, root')) \<Rightarrow> Some (Inr (h \<or> requests_of bs \<noteq> [], acc @ rs, root')))"
proof (induction E bs h acc root rule: process_blocks.induct)
  case (1 E hasToolUse toolResults root)
  show ?case by simp
next
  case (2 E t bs hasToolUse toolResults root)
  then show ?case by (simp split: option.splits sum.splits prod.splits)
next
  case (3 E i name input bs hasToolUse toolResults root)
  then show ?case
    by (auto split: option.splits sum.splits prod.splits)
next
  case (4 E i res bs hasToolUse toolResults root)
  then show ?case by (simp split: option.splits sum.splits prod.splits)
qed

lemma execute_in_order_answers:
  "execute_in_order E rs root = Some (Inr (results, root')) \<Longrightarrow> list_all2 answers rs results"
proof (induction rs arbitrary: root results)
  case Nil
  then show ?case by simp
next
  case (Cons r rs)
  obtain i name input where r: "r = (i, name, input)" by (cases r)
  from Cons.prems show ?case
    unfolding r
    by (auto split: option.splits sum.splits prod.splits dest: Cons.IH)
qed

lemma iteration_response:
  assumes "model (messages st) = Some (Inr response)"
  shows "iteration E A model st =
     (let st2 = st\<lparr>loopCount := loopCount st + 1,
                   sessionStats := updateContextUsage
                       (calculateTokenUsage A (messages st) (systemPrompt E) response)
                       ((sessionStats st)\<lparr>requestCount := requestCount (sessionStats st) + 1\<rparr>)\<rparr>
      in case execute_in_order E (requests_of response) (fs st) of
           None \<Rightarrow> None
         | Some (Inl (e, root')) \<Rightarrow> Some (Throw e (st2\<lparr>fs := root'\<rparr>))
         | Some (Inr (results, root')) \<Rightarrow>
             (if requests_of response \<noteq> []
              then Some (Continue (st2\<lparr>fs := root',
                     messages := messages st @ [Message Assistant (Blocks response),
                                                Message User (Blocks results)]\<rparr>))
              else Some (Break (st2\<lparr>fs := root',
                     messages := messages st @ [Message Assistant (Blocks response)]\<rparr>))))"
  using assms
  by (simp add: iteration_def Let_def process_blocks_in_order
           split: option.splits sum.splits prod.splits)

text \<open>
  Every pass that gets a response counts it twice.
\<close>

lemma iteration_counts_twice:
  assumes "model (messages st) = Some (Inr response)"
    and "iteration E A model st = Some (Continue st') \<or> iteration E A model st = Some (Break st')"
  shows "requestCount (sessionStats st') = requestCount (sessionStats st) + 2"
  using assms
  by (auto simp: iteration_response Let_def updateContextUsage_def
           split: option.splits sum.splits prod.splits if_splits)








text \<open>
  The fixture, evaluated.
\<close>

lemma demo_paths:
  "resolve demo_root ''/work/out.txt'' = Inr [''work'', ''out.txt'']"
  "resolve demo_root ''/work/notes.txt'' = Inr [''work'', ''notes.txt'']"
  "resolve demo_root ''/work/sub'' = Inr [''work'', ''sub'']"
  "resolve demo_root ''/work/missing/out.txt'' = Inr [''work'', ''missing'', ''out.txt'']"
  "resolve demo_root ''/work/nothing.txt'' = Inr [''work'', ''nothing.txt'']"
  "resolve demo_root ''/dev/null'' = Inr [''dev'', ''null'']"
  "resolve demo_root ''/tmp/pipe'' = Inr [''tmp'', ''pipe'']"
  "resolve demo_root ''/work'' = Inr [''work'']"
  by (simp_all add: resolve_def demo_root_def)

lemma demo_run:
  "execute_in_order demo_env (requests_of two_requests) demo_root =
     Some (Inr ([ToolResultBlock ''toolu_1'' ''Written to out.txt'',
                 ToolResultBlock ''toolu_2'' ''hello''],
                Dir [(''work'',
                      Dir [(''notes.txt'', File ReadWrite demo_text),
                           (''sub'', Dir []), (''out.txt'', File ReadWrite ''hello'')]),
                     demo_dev, demo_tmp]))"
proof -
  have w: "executeTool demo_env ''write_file''
             [(''path'', JStr ''out.txt''), (''content'', JStr ''hello'')] demo_root
           = Some (Inr (''Written to out.txt'',
                Dir [(''work'',
                      Dir [(''notes.txt'', File ReadWrite demo_text),
                           (''sub'', Dir []), (''out.txt'', File ReadWrite ''hello'')]),
                     demo_dev, demo_tmp]))"
    by (simp add: executeTool_def write_file_def field_def resolvePath_def demo_env_def
          fs_writeFileSync_def demo_paths)
       (simp add: demo_root_def demo_dev_def demo_tmp_def field_def)
  have r: "executeTool demo_env ''read_file'' [(''path'', JStr ''out.txt'')]
             (Dir [(''work'',
                      Dir [(''notes.txt'', File ReadWrite demo_text),
                           (''sub'', Dir []), (''out.txt'', File ReadWrite ''hello'')]),
                     demo_dev, demo_tmp])
           = Some (Inr (''hello'',
                Dir [(''work'',
                      Dir [(''notes.txt'', File ReadWrite demo_text),
                           (''sub'', Dir []), (''out.txt'', File ReadWrite ''hello'')]),
                     demo_dev, demo_tmp]))"
    by (simp add: executeTool_def read_file_def field_def resolvePath_def demo_env_def
          fs_readFileSync_def fs_stat_def resolve_def)
  show ?thesis
    by (simp add: two_requests_def w r)
qed





section \<open>The turn loop\<close>

text \<open>
  Claim C1. When a model response holds at least one tool-invocation request, one pass
  of the loop runs the requests in the order of the response, each on the file system
  the previous one left. If one of them never returns, neither does the pass; if one
  raises, the pass raises. Otherwise there is exactly one result block per request, in
  the same order and under the same identifier, the transcript grows by the assistant
  turn and one user turn holding these result blocks, and the loop goes on from that
  transcript: the next model call is made with it.
\<close>

theorem tool_results_before_next_call:
  assumes "model (messages st) = Some (Inr response)"
    and "requests_of response \<noteq> []"
  shows "case execute_in_order E (requests_of response) (fs st) of
           None \<Rightarrow> iteration E A model st = None
         | Some (Inl (e, root')) \<Rightarrow> (\<exists>st'. iteration E A model st = Some (Throw e st'))
         | Some (Inr (results, root')) \<Rightarrow>
             list_all2 answers (requests_of response) results
             \<and> (\<exists>st'. iteration E A model st = Some (Continue st')
                      \<and> messages st' = messages st @ [Message Assistant (Blocks response),
                                                        Message User (Blocks results)]
                      \<and> fs st' = root'
                      \<and> agent_loop E A model st = agent_loop E A model st')"
proof (cases "execute_in_order E (requests_of response) (fs st)")
  case None
  then show ?thesis using assms by (simp add: iteration_response)
next
  case (Some r)
  show ?thesis
  proof (cases r)
    case (Inl x)
    then show ?thesis using Some assms
      by (cases x) (simp add: iteration_response)
  next
    case (Inr y)
    obtain results root' where y: "y = (results, root')" by (cases y)
    have run: "execute_in_order E (requests_of response) (fs st) = Some (Inr (results, root'))"
      using Some Inr y by simp
    have ans: "list_all2 answers (requests_of response) results"
      using run by (rule execute_in_order_answers)
    have "\<exists>st'. iteration E A model st = Some (Continue st')
                \<and> messages st' = messages st @ [Message Assistant (Blocks response),
                                                  Message User (Blocks results)]
                \<and> fs st' = root'
                \<and> agent_loop E A model st = agent_loop E A model st'"
      using assms run
      by (subst agent_loop.simps) (simp add: iteration_response Let_def)
    with ans run show ?thesis by simp
  qed
qed

text \<open>
  In the fixture the model asks to write a file and then to read it: the second result
  is the text the first request wrote.
\<close>

theorem tool_results_before_next_call_witness:
  "demo_model (messages demo_state) = Some (Inr two_requests)
   \<and> requests_of two_requests \<noteq> []
   \<and> (\<exists>st'. iteration demo_env demo_accounting demo_model demo_state = Some (Continue st')
            \<and> messages st' =
                [Message User (Plain ''go''),
                 Message Assistant (Blocks two_requests),
                 Message User (Blocks [ToolResultBlock ''toolu_1'' ''Written to out.txt'',
                                       ToolResultBlock ''toolu_2'' ''hello''])])"
proof -
  have m: "demo_model (messages demo_state) = Some (Inr two_requests)"
    by (simp add: demo_model_def demo_state_def)
  have r: "requests_of two_requests \<noteq> []"
    by (simp add: two_requests_def)
  have f: "fs demo_state = demo_root" "messages demo_state = [Message User (Plain ''go'')]"
    by (simp_all add: demo_state_def)
  show ?thesis
    using tool_results_before_next_call [where model = demo_model and st = demo_state
        and response = two_requests and E = demo_env and A = demo_accounting] m r
    by (simp add: f demo_run) blast
qed

text \<open>
  Claim C2. When the first response to a prompt holds no tool-invocation request,
  \<^verbatim>\<open>runAgent\<close> returns after one pass of the loop, and its transcript is the user
  turn followed by one assistant turn with that response.
\<close>

theorem no_tool_use_one_iteration:
  assumes "model [Message User (Plain userMessage)] = Some (Inr response)"
    and "requests_of response = []"
  shows "\<exists>st. runAgent E A model userMessage stats root = Some (Returned st)
              \<and> messages st = [Message User (Plain userMessage),
                                Message Assistant (Blocks response)]
              \<and> loopCount st = 1
              \<and> fs st = root"
  using assms
  by (simp add: runAgent_def agent_loop.simps [of E A model] iteration_response Let_def)

theorem no_tool_use_one_iteration_witness:
  "demo_model [Message User (Plain ''hi'')] = Some (Inr [TextBlock ''Hello.''])
   \<and> requests_of [TextBlock ''Hello.''] = []
   \<and> (\<exists>st. runAgent demo_env demo_accounting demo_model ''hi'' demo_stats demo_root
               = Some (Returned st)
            \<and> messages st = [Message User (Plain ''hi''),
                              Message Assistant (Blocks [TextBlock ''Hello.''])]
            \<and> loopCount st = 1)"
proof -
  have m: "demo_model [Message User (Plain ''hi'')] = Some (Inr [TextBlock ''Hello.''])"
    by (simp add: demo_model_def)
  have r: "requests_of [TextBlock ''Hello.''] = []" by simp
  show ?thesis
    using no_tool_use_one_iteration [where model = demo_model and userMessage = "''hi''"
        and response = "[TextBlock ''Hello.'']" and E = demo_env and A = demo_accounting
        and stats = demo_stats and root = demo_root] m r
    by blast
qed

text \<open>
  Claim C8. The request counter is incremented once at the top of the loop body and once
  more inside \<^verbatim>\<open>updateContextUsage\<close>: a run that makes one model request, on the
  prompt \<^verbatim>\<open>hi\<close> that the model answers with text only, takes \<^verbatim>\<open>requestCount\<close> from
  0 to 2.
\<close>

theorem request_counted_twice:
  "\<exists>st. runAgent demo_env demo_accounting demo_model ''hi'' demo_stats demo_root
          = Some (Returned st)
        \<and> loopCount st = 1
        \<and> requestCount demo_stats = 0
        \<and> requestCount (sessionStats st) = 2"
  by (simp add: runAgent_def agent_loop.simps [of demo_env demo_accounting demo_model]
        iteration_response [of demo_model _ "[TextBlock ''Hello.'']"] demo_model_def Let_def
        updateContextUsage_def demo_stats_def)

section \<open>The tool executor\<close>

text \<open>
  Claim C3, as stated, fails where a call never returns: \<^verbatim>\<open>cat\<close> waits for input
  that never comes, no \<^verbatim>\<open>close\<close> or \<^verbatim>\<open>error\<close> event arrives, and the bash tool
  returns no text at all; \<^verbatim>\<open>read_file\<close> on a FIFO that nobody writes to hangs in
  \<^verbatim>\<open>fs.readFileSync\<close> and returns no text either.
\<close>

theorem pending_counterexample:
  "executeTool demo_env ''bash'' [(''command'', JStr ''cat'')] demo_root = None
   \<and> executeTool demo_env ''read_file'' [(''path'', JStr ''/tmp/pipe'')] demo_root = None"
  by (simp add: executeTool_def bash_def read_file_def field_def demo_env_def demo_spawn_def
        resolvePath_def fs_readFileSync_def fs_stat_def demo_paths)
     (simp add: demo_root_def demo_tmp_def demo_dev_def)

text \<open>
  Claim C3, amended. For every tool name other than \<^verbatim>\<open>bash\<close>, known or unknown, and
  every argument object, \<^verbatim>\<open>executeTool\<close> raises nothing. \<^verbatim>\<open>list_dir\<close> and every
  unknown name always return a text. \<^verbatim>\<open>read_file\<close>, \<^verbatim>\<open>write_file\<close> and \<^verbatim>\<open>list_dir\<close>
  return a text that begins with \<^verbatim>\<open>Error: \<close> when the path argument is not a string,
  and \<^verbatim>\<open>write_file\<close> does when its content is absent. With a path that is a string,
  \<^verbatim>\<open>read_file\<close> and \<^verbatim>\<open>write_file\<close> follow the file-system call: they return nothing
  when it hangs, \<^verbatim>\<open>Error: \<close> and the message when it raises, and the text read or
  the confirmation when it returns; \<^verbatim>\<open>list_dir\<close> returns \<^verbatim>\<open>Error: \<close> and the message
  when its call raises. For \<^verbatim>\<open>bash\<close>, once the process is spawned, a text is returned
  exactly when the process emits a \<^verbatim>\<open>close\<close> or an \<^verbatim>\<open>error\<close> event; otherwise the
  call stays pending.
\<close>

theorem executeTool_text_result:
  "(name \<noteq> ''bash'' \<longrightarrow> executeTool E name input root \<noteq> Some (Inl e))
   \<and> (name \<notin> {''read_file'', ''write_file'', ''bash''} \<longrightarrow>
        (\<exists>text. executeTool E name input root = Some (Inr (text, root))))
   \<and> (name \<in> {''read_file'', ''write_file'', ''list_dir''}
        \<and> (\<forall>s. field input ''path'' \<noteq> JStr s) \<longrightarrow>
      (\<exists>text. executeTool E name input root = Some (Inr (text, root)) \<and> prefix ''Error: '' text))
   \<and> (name = ''write_file''
        \<and> (field input ''content'' = JUndefined \<or> field input ''content'' = JNull) \<longrightarrow>
      (\<exists>text. executeTool E name input root = Some (Inr (text, root)) \<and> prefix ''Error: '' text))
   \<and> (name = ''read_file'' \<and> resolvePath E (field input ''path'') = Inr p \<longrightarrow>
      (case fs_readFileSync root p of
         None \<Rightarrow> executeTool E name input root = None
       | Some (Inl x) \<Rightarrow>
           executeTool E name input root = Some (Inr (''Error: '' @ message x, root))
       | Some (Inr stored) \<Rightarrow> executeTool E name input root = Some (Inr (stored, root))))
   \<and> (name = ''list_dir'' \<and> resolvePath E (field input ''path'') = Inr p
        \<and> fs_readdirSync root p = Inl x \<longrightarrow>
      executeTool E name input root = Some (Inr (''Error: '' @ message x, root)))
   \<and> (name = ''write_file'' \<and> resolvePath E (field input ''path'') = Inr p
        \<and> field input ''content'' \<noteq> JUndefined \<and> field input ''content'' \<noteq> JNull \<longrightarrow>
      (case fs_writeFileSync E root p (field input ''content'') of
         None \<Rightarrow> executeTool E name input root = None
       | Some (WriteRaises x root') \<Rightarrow>
           executeTool E name input root = Some (Inr (''Error: '' @ message x, root'))
       | Some (Written root') \<Rightarrow>
           executeTool E name input root =
             Some (Inr (''Written to '' @ js_to_string (field input ''path''), root'))))
   \<and> (name = ''bash'' \<and> spawn E (field input ''command'') root = Spawned evs root' \<longrightarrow>
      (if \<exists>ev\<in>set evs. settles ev
       then \<exists>text. executeTool E name input root = Some (Inr (text, root'))
       else executeTool E name input root = None))"
proof (intro conjI impI)
  assume "name \<noteq> ''bash''"
  then show "executeTool E name input root \<noteq> Some (Inl e)"
    by (auto simp: executeTool_def)
next
  assume "name \<notin> {''read_file'', ''write_file'', ''bash''}"
  then show "\<exists>text. executeTool E name input root = Some (Inr (text, root))"
    by (simp add: executeTool_def)
next
  assume a: "name \<in> {''read_file'', ''write_file'', ''list_dir''}
             \<and> (\<forall>s. field input ''path'' \<noteq> JStr s)"
  then obtain x where x: "resolvePath E (field input ''path'') = Inl x"
    using resolvePath_not_string by blast
  from a x show "\<exists>text. executeTool E name input root = Some (Inr (text, root))
                       \<and> prefix ''Error: '' text"
    by (auto simp: executeTool_def read_file_def write_file_def list_dir_def)
next
  assume "name = ''write_file''
          \<and> (field input ''content'' = JUndefined \<or> field input ''content'' = JNull)"
  then show "\<exists>text. executeTool E name input root = Some (Inr (text, root))
                   \<and> prefix ''Error: '' text"
    by (auto simp: executeTool_def write_file_def)
next
  assume "name = ''read_file'' \<and> resolvePath E (field input ''path'') = Inr p"
  then show "case fs_readFileSync root p of
         None \<Rightarrow> executeTool E name input root = None
       | Some (Inl x) \<Rightarrow>
           executeTool E name input root = Some (Inr (''Error: '' @ message x, root))
       | Some (Inr stored) \<Rightarrow> executeTool E name input root = Some (Inr (stored, root))"
    by (simp add: executeTool_def read_file_def split: option.splits sum.splits)
next
  assume "name = ''list_dir'' \<and> resolvePath E (field input ''path'') = Inr p
          \<and> fs_readdirSync root p = Inl x"
  then show "executeTool E name input root = Some (Inr (''Error: '' @ message x, root))"
    by (simp add: executeTool_def list_dir_def)
next
  assume "name = ''write_file'' \<and> resolvePath E (field input ''path'') = Inr p
          \<and> field input ''content'' \<noteq> JUndefined \<and> field input ''content'' \<noteq> JNull"
  then show "case fs_writeFileSync E root p (field input ''content'') of
         None \<Rightarrow> executeTool E name input root = None
       | Some (WriteRaises x root') \<Rightarrow>
           executeTool E name input root = Some (Inr (''Error: '' @ message x, root'))
       | Some (Written root') \<Rightarrow>
           executeTool E name input root =
             Some (Inr (''Written to '' @ js_to_string (field input ''path''), root'))"
    by (simp add: executeTool_def write_file_def split: option.splits write_result.splits)
next
  assume a: "name = ''bash'' \<and> spawn E (field input ''command'') root = Spawned evs root'"
  show "if \<exists>ev\<in>set evs. settles ev
        then \<exists>text. executeTool E name input root = Some (Inr (text, root'))
        else executeTool E name input root = None"
  proof (cases "\<exists>ev\<in>set evs. settles ev")
    case True
    then obtain t where "bash_events [] [] evs = Some t"
      using bash_events_settles by blast
    then show ?thesis using a True by (simp add: executeTool_def bash_def)
  next
    case False
    then have "bash_events [] [] evs = None"
      using bash_events_pending by blast
    then show ?thesis using a False by (simp add: executeTool_def bash_def)
  qed
qed

theorem executeTool_text_result_witness:
  "executeTool demo_env ''read_file'' [] demo_root
     \<noteq> Some (Inl (TypeError ''The path argument must be of type string. Received undefined''))
   \<and> (\<exists>text. executeTool demo_env ''list_dir'' [(''path'', JStr ''sub'')] demo_root
              = Some (Inr (text, demo_root)))
   \<and> (\<exists>text. executeTool demo_env ''read_file'' [] demo_root = Some (Inr (text, demo_root))
            \<and> prefix ''Error: '' text)
   \<and> (\<exists>text. executeTool demo_env ''write_file'' [(''path'', JStr ''out.txt'')] demo_root
              = Some (Inr (text, demo_root))
            \<and> prefix ''Error: '' text)
   \<and> executeTool demo_env ''read_file'' [(''path'', JStr ''nothing.txt'')] demo_root
       = Some (Inr (''Error: ENOENT: no such file or directory'', demo_root))
   \<and> executeTool demo_env ''read_file'' [(''path'', JStr ''/tmp/pipe'')] demo_root = None
   \<and> executeTool demo_env ''list_dir'' [(''path'', JStr ''notes.txt'')] demo_root
       = Some (Inr (''Error: ENOTDIR: not a directory'', demo_root))
   \<and> executeTool demo_env ''write_file'' [(''path'', JStr ''sub''), (''content'', JStr ''x'')]
         demo_root
       = Some (Inr (''Error: EISDIR: illegal operation on a directory'', demo_root))
   \<and> (\<exists>text. executeTool demo_env ''bash'' [(''command'', JStr ''exit 7'')] demo_root
              = Some (Inr (text, demo_root)))"
proof -
  have nopath: "\<forall>s. field [] ''path'' \<noteq> JStr s"
    by (simp add: field_def)
  have nocontent: "field [(''path'', JStr ''out.txt'')] ''content'' = JUndefined"
    by (simp add: field_def)
  have rd: "resolvePath demo_env (field [(''path'', JStr ''nothing.txt'')] ''path'')
              = Inr ''/work/nothing.txt''"
           "fs_readFileSync demo_root ''/work/nothing.txt''
              = Some (Inl (SystemError ''ENOENT: no such file or directory''))"
    by (simp_all add: field_def resolvePath_def demo_env_def fs_readFileSync_def
          fs_stat_def demo_paths)
       (simp add: demo_root_def sys_error_def)
  have pp: "resolvePath demo_env (field [(''path'', JStr ''/tmp/pipe'')] ''path'')
              = Inr ''/tmp/pipe''"
           "fs_readFileSync demo_root ''/tmp/pipe'' = None"
    by (simp_all add: field_def resolvePath_def demo_env_def fs_readFileSync_def
          fs_stat_def demo_paths)
       (simp add: demo_root_def demo_tmp_def demo_dev_def)
  have ls: "resolvePath demo_env (field [(''path'', JStr ''notes.txt'')] ''path'')
              = Inr ''/work/notes.txt''"
           "fs_readdirSync demo_root ''/work/notes.txt''
              = Inl (SystemError ''ENOTDIR: not a directory'')"
    by (simp_all add: field_def resolvePath_def demo_env_def fs_readdirSync_def
          fs_stat_def demo_paths)
       (simp add: demo_root_def sys_error_def)
  have wr: "resolvePath demo_env
              (field [(''path'', JStr ''sub''), (''content'', JStr ''x'')] ''path'')
              = Inr ''/work/sub''"
           "field [(''path'', JStr ''sub''), (''content'', JStr ''x'')] ''content'' = JStr ''x''"
           "fs_writeFileSync demo_env demo_root ''/work/sub'' (JStr ''x'')
              = Some (WriteRaises (SystemError ''EISDIR: illegal operation on a directory'')
                        demo_root)"
    by (simp_all add: field_def resolvePath_def demo_env_def fs_writeFileSync_def demo_paths)
       (simp add: demo_root_def sys_error_def)
  have sp: "spawn demo_env (field [(''command'', JStr ''exit 7'')] ''command'') demo_root
              = Spawned [Close (Some 7)] demo_root"
    by (simp add: field_def demo_env_def demo_spawn_def)
  have c0: "executeTool demo_env ''read_file'' [] demo_root
     \<noteq> Some (Inl (TypeError ''The path argument must be of type string. Received undefined''))"
    using executeTool_text_result [of "''read_file''" demo_env "[]" demo_root] by simp
  have c1: "\<exists>text. executeTool demo_env ''list_dir'' [(''path'', JStr ''sub'')] demo_root
                = Some (Inr (text, demo_root))"
    using executeTool_text_result [of "''list_dir''" demo_env "[(''path'', JStr ''sub'')]"
        demo_root]
    by simp
  have c2: "\<exists>text. executeTool demo_env ''read_file'' [] demo_root = Some (Inr (text, demo_root))
                \<and> prefix ''Error: '' text"
    using executeTool_text_result [of "''read_file''" demo_env "[]" demo_root] nopath
    by simp
  have c3: "\<exists>text. executeTool demo_env ''write_file'' [(''path'', JStr ''out.txt'')] demo_root
                  = Some (Inr (text, demo_root))
                \<and> prefix ''Error: '' text"
    using executeTool_text_result [of "''write_file''" demo_env "[(''path'', JStr ''out.txt'')]"
        demo_root] nocontent
    by simp
  have c4: "executeTool demo_env ''read_file'' [(''path'', JStr ''nothing.txt'')] demo_root
       = Some (Inr (''Error: ENOENT: no such file or directory'', demo_root))"
    using executeTool_text_result [of "''read_file''" demo_env "[(''path'', JStr ''nothing.txt'')]"
        demo_root _ "''/work/nothing.txt''"] rd
    by simp
  have c4b: "executeTool demo_env ''read_file'' [(''path'', JStr ''/tmp/pipe'')] demo_root = None"
    using executeTool_text_result [of "''read_file''" demo_env "[(''path'', JStr ''/tmp/pipe'')]"
        demo_root _ "''/tmp/pipe''"] pp
    by simp
  have c5: "executeTool demo_env ''list_dir'' [(''path'', JStr ''notes.txt'')] demo_root
       = Some (Inr (''Error: ENOTDIR: not a directory'', demo_root))"
    using executeTool_text_result [of "''list_dir''" demo_env "[(''path'', JStr ''notes.txt'')]"
        demo_root _ "''/work/notes.txt''" "SystemError ''ENOTDIR: not a directory''"] ls
    by simp
  have c6: "executeTool demo_env ''write_file'' [(''path'', JStr ''sub''), (''content'', JStr ''x'')]
         demo_root
       = Some (Inr (''Error: EISDIR: illegal operation on a directory'', demo_root))"
    using executeTool_text_result [of "''write_file''" demo_env
        "[(''path'', JStr ''sub''), (''content'', JStr ''x'')]"
        demo_root _ "''/work/sub''"] wr
    by simp
  have c7: "\<exists>text. executeTool demo_env ''bash'' [(''command'', JStr ''exit 7'')] demo_root
              = Some (Inr (text, demo_root))"
    using executeTool_text_result [of "''bash''" demo_env "[(''command'', JStr ''exit 7'')]"
        demo_root _ _ _ "[Close (Some 7)]" demo_root] sp
    by simp
  show ?thesis
    using c0 c1 c2 c3 c4 c4b c5 c6 c7 by (intro conjI)
qed







text \<open>
  Claim C6, as stated, fails in its first words, that the bash tool always returns a
  result: \<^verbatim>\<open>sleep infinity\<close> never exits, no event settles the promise, and there is
  no result; and a command with a NUL character makes \<^verbatim>\<open>spawn\<close> raise inside the
  executor of the promise, so that the failure to spawn is raised to the caller and
  not returned as a text.
\<close>

theorem never_exits_counterexample:
  "executeTool demo_env ''bash'' [(''command'', JStr ''sleep infinity'')] demo_root = None
   \<and> executeTool demo_env ''bash'' [(''command'', JStr [CHR 0x00])] demo_root
     = Some (Inl (TypeError ''The argument args[1] must be a string without null bytes''))"
  by (simp add: executeTool_def bash_def field_def demo_env_def demo_spawn_def)

text \<open>
  Claim C6, amended. When the process is spawned and the first event that settles the
  promise of the bash tool is \<^verbatim>\<open>close\<close> with an exit code, zero or not, the tool
  returns the text \<^verbatim>\<open>Exit code: \<close>, the code, a line break, the standard output
  collected so far and, only when the collected standard error is not empty, a line
  break and \<^verbatim>\<open>Stderr: \<close> with it. When that first event is \<^verbatim>\<open>error\<close> (the process
  could not be started), the tool returns \<^verbatim>\<open>Error: \<close> and the message.
\<close>

theorem bash_reports_exit_code:
  assumes "spawn E (field input ''command'') root = Spawned (pre @ ev # rest) root'"
    and "\<forall>d\<in>set pre. \<not> settles d"
  shows "(ev = Close code \<longrightarrow>
            executeTool E ''bash'' input root =
              Some (Inr (''Exit code: '' @ show_code code @ nl @ stdout_of pre
                         @ (if stderr_of pre \<noteq> [] then nl @ ''Stderr: '' @ stderr_of pre else []),
                         root')))
       \<and> (ev = ProcError e \<longrightarrow>
            executeTool E ''bash'' input root = Some (Inr (''Error: '' @ message e, root')))"
  using assms by (simp add: executeTool_def bash_def bash_events_collect)

text \<open>
  In the fixture, \<^verbatim>\<open>exit 0\<close> gives exit code 0 and no standard-error section,
  \<^verbatim>\<open>exit 7\<close> gives exit code 7.
\<close>

theorem bash_reports_exit_code_witness:
  "executeTool demo_env ''bash'' [(''command'', JStr ''exit 0'')] demo_root
     = Some (Inr (''Exit code: 0'' @ nl, demo_root))
   \<and> executeTool demo_env ''bash'' [(''command'', JStr ''exit 7'')] demo_root
     = Some (Inr (''Exit code: 7'' @ nl, demo_root))
   \<and> executeTool demo_env ''bash'' [(''command'', JStr ''echo out; echo err >&2; exit 3'')] demo_root
     = Some (Inr (''Exit code: 3'' @ nl @ ''out'' @ nl @ nl @ ''Stderr: err'' @ nl, demo_root))"
proof -
  have s0: "spawn demo_env (field [(''command'', JStr ''exit 0'')] ''command'') demo_root
              = Spawned ([] @ Close (Some 0) # []) demo_root"
    by (simp add: demo_env_def demo_spawn_def field_def)
  have s7: "spawn demo_env (field [(''command'', JStr ''exit 7'')] ''command'') demo_root
              = Spawned ([] @ Close (Some 7) # []) demo_root"
    by (simp add: demo_env_def demo_spawn_def field_def)
  have s3: "spawn demo_env (field [(''command'', JStr ''echo out; echo err >&2; exit 3'')] ''command'')
              demo_root
              = Spawned ([Stdout (''out'' @ nl), Stderr (''err'' @ nl)] @ Close (Some 3) # []) demo_root"
    by (simp add: demo_env_def demo_spawn_def field_def)
  have d: "\<forall>d\<in>set [Stdout (''out'' @ nl), Stderr (''err'' @ nl)]. \<not> settles d" by simp
  show ?thesis
    using bash_reports_exit_code [OF s0, of "Some 0"] bash_reports_exit_code [OF s7, of "Some 7"]
      bash_reports_exit_code [OF s3 d, of "Some 3"]
    by (simp add: stdout_of_def stderr_of_def show_int_def show_nat.simps digit_def nl_def)
qed

text \<open>
  Claim C9, as stated, fails for \<^verbatim>\<open>write_file\<close> without content: the modular variant
  answers with its required-field error, the single-file variant with the message of
  the TypeError that \<^verbatim>\<open>fs.writeFileSync\<close> raises.
\<close>

theorem variants_differ_counterexample:
  "executeTool demo_env ''write_file'' [(''path'', JStr ''out.txt'')] demo_root
     = Some (Inr (''Error: content parameter is required but was not provided'', demo_root))
   \<and> executeTool_single demo_env ''write_file'' [(''path'', JStr ''out.txt'')] demo_root
     = Some (Inr (''Error: The data argument must be of type string or an instance of ''
                  @ ''Buffer, TypedArray, or DataView. Received undefined'', demo_root))"
  by (simp add: executeTool_def executeTool_single_def write_file_def write_file_single_def
        field_def resolvePath_def demo_env_def fs_writeFileSync_def)

text \<open>
  Claim C9, amended. For every tool name and every argument object other than
  \<^verbatim>\<open>write_file\<close> with an absent (undefined or null) content, the single-file variant
  and the modular variant return the same text and leave the same file system.
\<close>

theorem variants_agree:
  assumes "\<not> (name = ''write_file''
              \<and> (field input ''content'' = JUndefined \<or> field input ''content'' = JNull))"
  shows "executeTool_single E name input root = executeTool E name input root"
  using assms
  by (auto simp: executeTool_def executeTool_single_def write_file_def write_file_single_def)

theorem variants_agree_witness:
  "\<not> (''write_file'' = ''write_file''
       \<and> (field [(''path'', JStr ''out.txt''), (''content'', JStr ''hello'')] ''content'' = JUndefined
          \<or> field [(''path'', JStr ''out.txt''), (''content'', JStr ''hello'')] ''content'' = JNull))
   \<and> executeTool_single demo_env ''write_file''
       [(''path'', JStr ''out.txt''), (''content'', JStr ''hello'')] demo_root
     = executeTool demo_env ''write_file''
       [(''path'', JStr ''out.txt''), (''content'', JStr ''hello'')] demo_root"
proof -
  have h: "\<not> (''write_file'' = ''write_file''
       \<and> (field [(''path'', JStr ''out.txt''), (''content'', JStr ''hello'')] ''content'' = JUndefined
          \<or> field [(''path'', JStr ''out.txt''), (''content'', JStr ''hello'')] ''content'' = JNull))"
    by (simp add: field_def)
  show ?thesis
    using variants_agree [OF h, of demo_env demo_root] h by blast
qed

text \<open>
  Claim C10. For a name that is none of the four tools, both variants of
  \<^verbatim>\<open>executeTool\<close> return the text \<^verbatim>\<open>Unknown tool: \<close> followed by the name and leave
  the file system alone; the text does not start with \<^verbatim>\<open>Error:\<close>.
\<close>

theorem unknown_tool_text:
  assumes "name \<notin> {''read_file'', ''write_file'', ''list_dir'', ''bash''}"
  shows "executeTool E name input root = Some (Inr (''Unknown tool: '' @ name, root))
         \<and> executeTool_single E name input root = Some (Inr (''Unknown tool: '' @ name, root))
         \<and> \<not> prefix ''Error:'' (''Unknown tool: '' @ name)"
  using assms by (simp add: executeTool_def executeTool_single_def)

theorem unknown_tool_text_witness:
  "''grep_search'' \<notin> {''read_file'', ''write_file'', ''list_dir'', ''bash''}
   \<and> executeTool demo_env ''grep_search'' [(''pattern'', JStr ''foo'')] demo_root
       = Some (Inr (''Unknown tool: grep_search'', demo_root))
   \<and> executeTool_single demo_env ''grep_search'' [(''pattern'', JStr ''foo'')] demo_root
       = Some (Inr (''Unknown tool: grep_search'', demo_root))"
  using unknown_tool_text [of "''grep_search''" demo_env "[(''pattern'', JStr ''foo'')]" demo_root]
  by simp

section \<open>The search tool\<close>



end
